theory Spec2Isabelle
  imports Main "HOL-Library.AList"
begin

section \<open>Python values, types and errors\<close>

text \<open>
  The module \<^verbatim>\<open>dynamoclasses/__init__.py\<close> is dynamically typed: field values, declared
  field types and the keys of \<^verbatim>\<open>TYPE_MAPPING\<close> are Python objects. The embedding fixes a
  universe of values: the six kinds of the registry, lists (a kind the registry does not
  know) and instances of other dataclasses (which \<^verbatim>\<open>asdict\<close> turns into mappings).
  Strings are sequences of code points below 256 and bytes are sequences of octets, both
  \<^typ>\<open>string\<close>. Mappings are association lists in insertion order with string keys, as
  JSON objects and the attribute maps of the storage service have them. Floats are kept
  abstract: the type parameter \<open>'f\<close> stands for the float values and the operations on
  them are parameters (see \<open>builtins\<close> below).
\<close>

datatype pytype = TStr | TFloat | TInt | TBytes | TDict | TBool | TNoneType | TList | TClass string

text \<open>
  An object used as a field annotation and as a key of \<^verbatim>\<open>TYPE_MAPPING\<close>: a type, or the
  value \<^verbatim>\<open>None\<close> (line 17 of the source uses \<^verbatim>\<open>None\<close> itself as a key, not its type).
\<close>

datatype pykey = Ty pytype | NoneValue

datatype 'f pyval =
    VStr string
  | VInt int
  | VFloat 'f
  | VBytes string
  | VDict "(string \<times> 'f pyval) list"
  | VBool bool
  | VNone
  | VList "'f pyval list"
  | VData string "(string \<times> 'f pyval) list"

text \<open>
  The exceptions the module can raise. \<open>Exception msg\<close> is the \<^verbatim>\<open>raise Exception(...)\<close> of
  lines 28 and 33 with its message (the specification calls it InvalidKeyFieldError);
  \<open>NoSuchField name\<close> is the \<^verbatim>\<open>ValueError\<close> of lines 68 and 84 for the field \<open>name\<close>
  (UnknownFieldError in the specification); \<open>KeyError\<close> is a failed dictionary lookup,
  among them \<^verbatim>\<open>TYPE_MAPPING[...]\<close> (UnsupportedTypeError in the specification);
  \<open>ItemNotFoundError\<close> is the class of line 7. \<open>TypeError\<close>, \<open>ValueError\<close>, \<open>IndexError\<close>
  and \<open>OverflowError\<close> are raised by the interpreter's own operations, \<open>ClientError\<close> by
  the storage client.
\<close>

datatype error =
    Exception string
  | NoSuchField string
  | KeyError
  | ItemNotFoundError
  | TypeError
  | ValueError
  | IndexError
  | OverflowError
  | ClientError

text \<open>
  Operations of the interpreter and of the standard library that the module calls and
  whose results are not computed here: everything on floats, the \<^verbatim>\<open>repr\<close>-based text of
  bytes, containers and instances, \<^verbatim>\<open>dict(...)\<close> of a non-empty list, the JSON parser and
  the constructors of other classes.
\<close>

record 'f builtins =
  float_str :: "'f \<Rightarrow> string"
  float_of_int :: "int \<Rightarrow> error + 'f"
  float_of_str :: "string \<Rightarrow> error + 'f"
  float_of_bytes :: "string \<Rightarrow> error + 'f"
  int_of_float :: "'f \<Rightarrow> error + int"
  bool_of_float :: "'f \<Rightarrow> bool"
  repr_of :: "'f pyval \<Rightarrow> string"
  dict_of_list :: "'f pyval list \<Rightarrow> error + (string \<times> 'f pyval) list"
  json_loads_str :: "string \<Rightarrow> error + 'f pyval"
  json_loads_bytes :: "string \<Rightarrow> error + 'f pyval"
  class_call :: "string \<Rightarrow> 'f pyval \<Rightarrow> error + 'f pyval"

text \<open>\<^verbatim>\<open>type(v)\<close>.\<close>

fun py_type :: "'f pyval \<Rightarrow> pytype" where
  "py_type (VStr _) = TStr"
| "py_type (VInt _) = TInt"
| "py_type (VFloat _) = TFloat"
| "py_type (VBytes _) = TBytes"
| "py_type (VDict _) = TDict"
| "py_type (VBool _) = TBool"
| "py_type VNone = TNoneType"
| "py_type (VList _) = TList"
| "py_type (VData c _) = TClass c"

subsection \<open>Decimal text of integers\<close>

definition digit_char :: "nat \<Rightarrow> char" where
  "digit_char d = char_of (48 + d)"

definition is_digit :: "char \<Rightarrow> bool" where
  "is_digit c = (48 \<le> (of_char c :: nat) \<and> (of_char c :: nat) \<le> 57)"

definition digit_val :: "char \<Rightarrow> nat" where
  "digit_val c = of_char c - 48"

fun show_nat :: "nat \<Rightarrow> string" where
  "show_nat n = (if n < 10 then [digit_char n] else show_nat (n div 10) @ [digit_char (n mod 10)])"

declare show_nat.simps [simp del]

text \<open>
  \<^verbatim>\<open>str(n)\<close> for an int \<open>n\<close>, without the limit on the number of digits that newer
  interpreters can be configured with.
\<close>

definition str_int :: "int \<Rightarrow> string" where
  "str_int n = (if n < 0 then CHR ''-'' # show_nat (nat (- n)) else show_nat (nat n))"

text \<open>
  \<^verbatim>\<open>int(s)\<close> in base 10: white space is stripped at both ends, one sign may lead, and the
  digits may be separated by single underscores. \<open>is_space_str\<close> is the white space that
  \<^verbatim>\<open>int\<close> strips from a str below code point 256 (the ASCII white space, U+0085 and U+00A0),
  \<open>is_space_bytes\<close> that of bytes.
\<close>

definition is_space_str :: "char \<Rightarrow> bool" where
  "is_space_str c = (let n = (of_char c :: nat) in
     (9 \<le> n \<and> n \<le> 13) \<or> n = 32 \<or> n = 133 \<or> n = 160)"

definition is_space_bytes :: "char \<Rightarrow> bool" where
  "is_space_bytes c = (let n = (of_char c :: nat) in (9 \<le> n \<and> n \<le> 13) \<or> n = 32)"

definition strip :: "(char \<Rightarrow> bool) \<Rightarrow> string \<Rightarrow> string" where
  "strip sp s = rev (dropWhile sp (rev (dropWhile sp s)))"

fun parse_digits :: "nat \<Rightarrow> string \<Rightarrow> nat option" where
  "parse_digits acc [] = Some acc"
| "parse_digits acc (c # cs) =
     (if is_digit c then parse_digits (10 * acc + digit_val c) cs
      else if c = CHR ''_'' then
        (case cs of
           [] \<Rightarrow> None
         | d # ds \<Rightarrow> if is_digit d then parse_digits (10 * acc + digit_val d) ds else None)
      else None)"

definition parse_nat :: "string \<Rightarrow> nat option" where
  "parse_nat s = (case s of
       [] \<Rightarrow> None
     | c # cs \<Rightarrow> if is_digit c then parse_digits (digit_val c) cs else None)"

definition parse_int :: "(char \<Rightarrow> bool) \<Rightarrow> string \<Rightarrow> error + int" where
  "parse_int sp s = (case strip sp s of
       [] \<Rightarrow> Inl ValueError
     | c # cs \<Rightarrow>
         if c = CHR ''-'' then
           (case parse_nat cs of None \<Rightarrow> Inl ValueError | Some n \<Rightarrow> Inr (- int n))
         else if c = CHR ''+'' then
           (case parse_nat cs of None \<Rightarrow> Inl ValueError | Some n \<Rightarrow> Inr (int n))
         else
           (case parse_nat (c # cs) of None \<Rightarrow> Inl ValueError | Some n \<Rightarrow> Inr (int n)))"

subsection \<open>The constructors \<^verbatim>\<open>str\<close>, \<^verbatim>\<open>int\<close>, \<^verbatim>\<open>float\<close>, \<^verbatim>\<open>bytes\<close>, \<^verbatim>\<open>dict\<close>, \<^verbatim>\<open>bool\<close>, \<^verbatim>\<open>list\<close>\<close>

text \<open>
  A comprehension or loop over a list whose body may raise: the first exception ends it.
\<close>

fun map_error :: "('a \<Rightarrow> error + 'b) \<Rightarrow> 'a list \<Rightarrow> error + 'b list" where
  "map_error f [] = Inr []"
| "map_error f (x # xs) =
     (case f x of
        Inl e \<Rightarrow> Inl e
      | Inr y \<Rightarrow> (case map_error f xs of Inl e \<Rightarrow> Inl e | Inr ys \<Rightarrow> Inr (y # ys)))"

fun py_str :: "'f builtins \<Rightarrow> 'f pyval \<Rightarrow> string" where
  "py_str env (VStr s) = s"
| "py_str env (VInt n) = str_int n"
| "py_str env (VFloat f) = float_str env f"
| "py_str env (VBool b) = (if b then ''True'' else ''False'')"
| "py_str env VNone = ''None''"
| "py_str env (VBytes b) = repr_of env (VBytes b)"
| "py_str env (VDict kvs) = repr_of env (VDict kvs)"
| "py_str env (VList xs) = repr_of env (VList xs)"
| "py_str env (VData c fs) = repr_of env (VData c fs)"

fun py_int :: "'f builtins \<Rightarrow> 'f pyval \<Rightarrow> error + int" where
  "py_int env (VStr s) = parse_int is_space_str s"
| "py_int env (VInt n) = Inr n"
| "py_int env (VFloat f) = int_of_float env f"
| "py_int env (VBytes b) = parse_int is_space_bytes b"
| "py_int env (VBool b) = Inr (if b then 1 else 0)"
| "py_int env (VDict _) = Inl TypeError"
| "py_int env VNone = Inl TypeError"
| "py_int env (VList _) = Inl TypeError"
| "py_int env (VData _ _) = Inl TypeError"

fun py_float :: "'f builtins \<Rightarrow> 'f pyval \<Rightarrow> error + 'f" where
  "py_float env (VStr s) = float_of_str env s"
| "py_float env (VInt n) = float_of_int env n"
| "py_float env (VFloat f) = Inr f"
| "py_float env (VBytes b) = float_of_bytes env b"
| "py_float env (VBool b) = float_of_int env (if b then 1 else 0)"
| "py_float env (VDict _) = Inl TypeError"
| "py_float env VNone = Inl TypeError"
| "py_float env (VList _) = Inl TypeError"
| "py_float env (VData _ _) = Inl TypeError"

text \<open>One element of the iterable given to \<^verbatim>\<open>bytes(...)\<close>: an int in \<^verbatim>\<open>range(256)\<close>.\<close>

fun byte_of :: "'f pyval \<Rightarrow> error + char" where
  "byte_of (VInt n) = (if 0 \<le> n \<and> n < 256 then Inr (char_of n) else Inl ValueError)"
| "byte_of (VBool b) = Inr (char_of (if b then 1 else 0 :: nat))"
| "byte_of (VStr _) = Inl TypeError"
| "byte_of (VFloat _) = Inl TypeError"
| "byte_of (VBytes _) = Inl TypeError"
| "byte_of (VDict _) = Inl TypeError"
| "byte_of VNone = Inl TypeError"
| "byte_of (VList _) = Inl TypeError"
| "byte_of (VData _ _) = Inl TypeError"

fun py_bytes :: "'f builtins \<Rightarrow> 'f pyval \<Rightarrow> error + string" where
  "py_bytes env (VStr _) = Inl TypeError"
| "py_bytes env (VInt n) = (if n < 0 then Inl ValueError else Inr (replicate (nat n) (char_of (0::nat))))"
| "py_bytes env (VFloat _) = Inl TypeError"
| "py_bytes env (VBytes b) = Inr b"
| "py_bytes env (VBool b) = Inr (replicate (if b then 1 else 0) (char_of (0::nat)))"
| "py_bytes env (VDict kvs) = (if kvs = [] then Inr [] else Inl TypeError)"
| "py_bytes env VNone = Inl TypeError"
| "py_bytes env (VList xs) = map_error byte_of xs"
| "py_bytes env (VData _ _) = Inl TypeError"

fun py_dict :: "'f builtins \<Rightarrow> 'f pyval \<Rightarrow> error + (string \<times> 'f pyval) list" where
  "py_dict env (VDict kvs) = Inr kvs"
| "py_dict env (VList xs) = (if xs = [] then Inr [] else dict_of_list env xs)"
| "py_dict env (VStr s) = (if s = [] then Inr [] else Inl ValueError)"
| "py_dict env (VBytes b) = (if b = [] then Inr [] else Inl TypeError)"
| "py_dict env (VInt _) = Inl TypeError"
| "py_dict env (VFloat _) = Inl TypeError"
| "py_dict env (VBool _) = Inl TypeError"
| "py_dict env VNone = Inl TypeError"
| "py_dict env (VData _ _) = Inl TypeError"

fun py_bool :: "'f builtins \<Rightarrow> 'f pyval \<Rightarrow> bool" where
  "py_bool env (VStr s) = (s \<noteq> [])"
| "py_bool env (VInt n) = (n \<noteq> 0)"
| "py_bool env (VFloat f) = bool_of_float env f"
| "py_bool env (VBytes b) = (b \<noteq> [])"
| "py_bool env (VDict kvs) = (kvs \<noteq> [])"
| "py_bool env (VBool b) = b"
| "py_bool env VNone = False"
| "py_bool env (VList xs) = (xs \<noteq> [])"
| "py_bool env (VData _ _) = True"

fun py_list :: "'f pyval \<Rightarrow> error + 'f pyval list" where
  "py_list (VList xs) = Inr xs"
| "py_list (VStr s) = Inr (map (\<lambda>c. VStr [c]) s)"
| "py_list (VBytes b) = Inr (map (\<lambda>c. VInt (of_char c)) b)"
| "py_list (VDict kvs) = Inr (map (\<lambda>kv. VStr (fst kv)) kvs)"
| "py_list (VInt _) = Inl TypeError"
| "py_list (VFloat _) = Inl TypeError"
| "py_list (VBool _) = Inl TypeError"
| "py_list VNone = Inl TypeError"
| "py_list (VData _ _) = Inl TypeError"

text \<open>\<^verbatim>\<open>json.loads(v)\<close>: only text is parsed, any other argument is a \<^verbatim>\<open>TypeError\<close>.\<close>

fun json_loads :: "'f builtins \<Rightarrow> 'f pyval \<Rightarrow> error + 'f pyval" where
  "json_loads env (VStr s) = json_loads_str env s"
| "json_loads env (VBytes b) = json_loads_bytes env b"
| "json_loads env (VInt _) = Inl TypeError"
| "json_loads env (VFloat _) = Inl TypeError"
| "json_loads env (VDict _) = Inl TypeError"
| "json_loads env (VBool _) = Inl TypeError"
| "json_loads env VNone = Inl TypeError"
| "json_loads env (VList _) = Inl TypeError"
| "json_loads env (VData _ _) = Inl TypeError"

text \<open>
  A field annotation called with one argument, \<^verbatim>\<open>field_type(value)\<close> (lines 76 and 93).
  \<^verbatim>\<open>None\<close> is not callable and \<^verbatim>\<open>NoneType\<close> takes no argument.
\<close>

fun call_type :: "'f builtins \<Rightarrow> pykey \<Rightarrow> 'f pyval \<Rightarrow> error + 'f pyval" where
  "call_type env (Ty TStr) v = Inr (VStr (py_str env v))"
| "call_type env (Ty TFloat) v = map_sum id VFloat (py_float env v)"
| "call_type env (Ty TInt) v = map_sum id VInt (py_int env v)"
| "call_type env (Ty TBytes) v = map_sum id VBytes (py_bytes env v)"
| "call_type env (Ty TDict) v = map_sum id VDict (py_dict env v)"
| "call_type env (Ty TBool) v = Inr (VBool (py_bool env v))"
| "call_type env (Ty TNoneType) v = Inl TypeError"
| "call_type env (Ty TList) v = map_sum id VList (py_list v)"
| "call_type env (Ty (TClass c)) v = class_call env c v"
| "call_type env NoneValue v = Inl TypeError"

subsection \<open>\<^verbatim>\<open>dataclasses.asdict\<close>\<close>

text \<open>
  \<^verbatim>\<open>asdict\<close> copies the field values and, on the way, turns every instance of a dataclass
  inside them into a mapping from field names to converted values; lists and mappings are
  rebuilt around their converted elements and everything else is copied.
\<close>

fun asdict_inner :: "'f pyval \<Rightarrow> 'f pyval" where
  "asdict_inner (VData c fs) = VDict (map (\<lambda>kv. (fst kv, asdict_inner (snd kv))) fs)"
| "asdict_inner (VList xs) = VList (map asdict_inner xs)"
| "asdict_inner (VDict kvs) = VDict (map (\<lambda>kv. (fst kv, asdict_inner (snd kv))) kvs)"
| "asdict_inner (VStr s) = VStr s"
| "asdict_inner (VInt n) = VInt n"
| "asdict_inner (VFloat f) = VFloat f"
| "asdict_inner (VBytes b) = VBytes b"
| "asdict_inner (VBool b) = VBool b"
| "asdict_inner VNone = VNone"

text \<open>
  A record instance is its field values in declaration order, which is the order in
  which \<^verbatim>\<open>asdict(self)\<close> lists them.
\<close>

type_synonym 'f dataclass_instance = "(string \<times> 'f pyval) list"

definition asdict :: "'f dataclass_instance \<Rightarrow> (string \<times> 'f pyval) list" where
  "asdict self = map (\<lambda>kv. (fst kv, asdict_inner (snd kv))) self"

section \<open>The module\<close>

subsection \<open>\<^verbatim>\<open>TYPE_MAPPING\<close> (lines 10 to 18)\<close>

record 'f mapping_entry =
  key :: string
  fn :: "'f pyval \<Rightarrow> 'f pyval"

fun TYPE_MAPPING :: "'f builtins \<Rightarrow> pykey \<Rightarrow> 'f mapping_entry option" where
  "TYPE_MAPPING env (Ty TStr) = Some \<lparr>key = ''S'', fn = (\<lambda>x. VStr (py_str env x))\<rparr>"
| "TYPE_MAPPING env (Ty TFloat) = Some \<lparr>key = ''N'', fn = (\<lambda>x. VStr (py_str env x))\<rparr>"
| "TYPE_MAPPING env (Ty TInt) = Some \<lparr>key = ''N'', fn = (\<lambda>x. VStr (py_str env x))\<rparr>"
| "TYPE_MAPPING env (Ty TBytes) = Some \<lparr>key = ''B'', fn = (\<lambda>x. VStr (py_str env x))\<rparr>"
| "TYPE_MAPPING env (Ty TDict) = Some \<lparr>key = ''M'', fn = (\<lambda>x. x)\<rparr>"
| "TYPE_MAPPING env (Ty TBool) = Some \<lparr>key = ''BOOL'', fn = (\<lambda>x. x)\<rparr>"
| "TYPE_MAPPING env NoneValue = Some \<lparr>key = ''NULL'', fn = (\<lambda>x. x)\<rparr>"
| "TYPE_MAPPING env (Ty TNoneType) = None"
| "TYPE_MAPPING env (Ty TList) = None"
| "TYPE_MAPPING env (Ty (TClass c)) = None"

subsection \<open>Wire items, the storage client and the decorated class\<close>

text \<open>
  A tagged value \<^verbatim>\<open>{tag: value}\<close> and a wire item \<^verbatim>\<open>{field_name: {tag: value}}\<close>, both
  dictionaries in insertion order.
\<close>

type_synonym 'f attribute = "(string \<times> 'f pyval) list"
type_synonym 'f wire_item = "(string \<times> 'f attribute) list"

text \<open>The keyword arguments of the client's \<^verbatim>\<open>query\<close> call (lines 133 to 140).\<close>

record 'f query_kwargs =
  TableName :: "string option"
  KeyConditionExpression :: string
  ExpressionAttributeValues :: "(string \<times> 'f attribute) list"
  IndexName :: "'f pyval option"

text \<open>
  The storage client (\<^verbatim>\<open>boto3.client("dynamodb")\<close>) is not part of the module. Its three
  calls are functions on a state \<open>'s\<close> of the backend: each returns a response or an
  exception, and the next state. The response of \<^verbatim>\<open>get_item\<close> is reduced to its
  \<^verbatim>\<open>"Item"\<close> entry, which may be absent, that of \<^verbatim>\<open>query\<close> to its \<^verbatim>\<open>"Items"\<close>.
\<close>

record ('f, 's) client =
  client_put_item :: "string option \<Rightarrow> 'f wire_item \<Rightarrow> 's \<Rightarrow> (error + 'f pyval) \<times> 's"
  client_get_item :: "string option \<Rightarrow> 'f wire_item \<Rightarrow> 's \<Rightarrow> (error + 'f wire_item option) \<times> 's"
  client_query :: "'f query_kwargs \<Rightarrow> 's \<Rightarrow> (error + 'f wire_item list) \<times> 's"

text \<open>A \<^verbatim>\<open>dataclasses.Field\<close>: the annotation and the default value, if there is one.\<close>

record 'f field =
  field_type :: pykey
  field_default :: "'f pyval option"

record dynamoclass_params =
  table_name :: "string option"
  partition_key_name :: string
  sort_key_name :: "string option"

text \<open>
  The class that \<^verbatim>\<open>_process_class\<close> returns: \<^verbatim>\<open>__dataclass_fields__\<close> in declaration
  order and the two attributes set at lines 35 to 49.
\<close>

record ('f, 's) dynamoclass =
  dataclass_fields :: "(string \<times> 'f field) list"
  dynamoclass_params :: dynamoclass_params
  dynamoclass_client :: "('f, 's) client"

text \<open>
  \<^verbatim>\<open>_process_class\<close> (lines 21 to 152). \<open>flds\<close> are the fields of
  \<^verbatim>\<open>dataclass(cls, **data_class_kwargs)\<close>; \<open>boto3_client\<close> is \<^verbatim>\<open>boto3.client("dynamodb", ...)\<close>
  as a function of its keyword arguments. \<open>partition_key_name\<close> is optional because the
  decorator's default for it is \<^verbatim>\<open>None\<close>, which is never a field name. \<open>region\<close> is not
  used by the source.
\<close>

definition quoted :: "string \<Rightarrow> string" where
  "quoted s = [char_of (34::nat)] @ s @ [char_of (34::nat)]"

definition process_class ::
  "((string \<times> string) list \<Rightarrow> error + ('f, 's) client) \<Rightarrow> (string \<times> 'f field) list \<Rightarrow>
   string option \<Rightarrow> string option \<Rightarrow> string option \<Rightarrow> string option \<Rightarrow> string option \<Rightarrow>
   error + ('f, 's) dynamoclass" where
  "process_class boto3_client flds table_nm partition_key_nm sort_key_nm endpoint_url region =
     (case partition_key_nm of
        None \<Rightarrow> Inl (Exception (''Partition Key Name '' @ quoted ''None'' @ '' not found in class fields''))
      | Some pk \<Rightarrow>
          if map_of flds pk = None then
            Inl (Exception (''Partition Key Name '' @ quoted pk @ '' not found in class fields''))
          else if sort_key_nm \<noteq> None \<and> map_of flds (the sort_key_nm) = None then
            Inl (Exception (''Sort Key Name '' @ quoted (the sort_key_nm) @ '' not found in class fields''))
          else
            (case boto3_client (case endpoint_url of None \<Rightarrow> [] | Some u \<Rightarrow> [(''endpoint_url'', u)]) of
               Inl e \<Rightarrow> Inl e
             | Inr c \<Rightarrow>
                 Inr \<lparr>dataclass_fields = flds,
                      dynamoclass_params =
                        \<lparr>table_name = table_nm, partition_key_name = pk, sort_key_name = sort_key_nm\<rparr>,
                      dynamoclass_client = c\<rparr>))"

subsection \<open>The methods\<close>

text \<open>\<^verbatim>\<open>_to_dynamo\<close> (lines 51 to 55).\<close>

definition to_dynamo :: "'f builtins \<Rightarrow> 'f dataclass_instance \<Rightarrow> error + 'f wire_item" where
  "to_dynamo env self =
     map_error
       (\<lambda>kv. case TYPE_MAPPING env (Ty (py_type (snd kv))) of
           None \<Rightarrow> Inl KeyError
         | Some m \<Rightarrow> Inr (fst kv, [(key m, fn m (snd kv))]))
       (asdict self)"

text \<open>
  \<^verbatim>\<open>cls(**kwargs)\<close>, the initialiser that \<^verbatim>\<open>dataclass\<close> generates: a keyword that is not a
  field, or a field without default that is not given, is a \<^verbatim>\<open>TypeError\<close>.
\<close>

definition new_instance ::
  "('f, 's) dynamoclass \<Rightarrow> (string \<times> 'f pyval) list \<Rightarrow> error + 'f dataclass_instance" where
  "new_instance cls kwargs =
     (if list_ex (\<lambda>kv. map_of (dataclass_fields cls) (fst kv) = None) kwargs then Inl TypeError
      else
        map_error
          (\<lambda>nf. case map_of kwargs (fst nf) of
              Some v \<Rightarrow> Inr (fst nf, v)
            | None \<Rightarrow>
                (case field_default (snd nf) of
                   None \<Rightarrow> Inl TypeError
                 | Some d \<Rightarrow> Inr (fst nf, d)))
          (dataclass_fields cls))"

text \<open>
  \<^verbatim>\<open>_to_dataclass\<close> (lines 63 to 79): the loop over the entries of the item, with the
  dictionary \<^verbatim>\<open>kwargs\<close> built so far.
\<close>

fun to_dataclass_loop ::
  "'f builtins \<Rightarrow> ('f, 's) dynamoclass \<Rightarrow> 'f wire_item \<Rightarrow> (string \<times> 'f pyval) list \<Rightarrow>
   error + (string \<times> 'f pyval) list" where
  "to_dataclass_loop env cls [] kwargs = Inr kwargs"
| "to_dataclass_loop env cls ((field_name, value) # rest) kwargs =
     (case map_of (dataclass_fields cls) field_name of
        None \<Rightarrow> Inl (NoSuchField field_name)
      | Some f \<Rightarrow>
          (case value of
             [] \<Rightarrow> Inl IndexError
           | tagged # _ \<Rightarrow>
               (case (if field_type f = Ty TDict then json_loads env (snd tagged)
                      else Inr (snd tagged)) of
                  Inl e \<Rightarrow> Inl e
                | Inr field_value \<Rightarrow>
                    (case call_type env (field_type f) field_value of
                       Inl e \<Rightarrow> Inl e
                     | Inr v \<Rightarrow>
                         to_dataclass_loop env cls rest (AList.update field_name v kwargs)))))"

definition to_dataclass ::
  "'f builtins \<Rightarrow> ('f, 's) dynamoclass \<Rightarrow> 'f wire_item \<Rightarrow> error + (string \<times> 'f pyval) list" where
  "to_dataclass env cls dynamodb_item = to_dataclass_loop env cls dynamodb_item []"

text \<open>\<^verbatim>\<open>_dataclass_field_to_dynamo_field\<close> (lines 81 to 95).\<close>

definition dataclass_field_to_dynamo_field ::
  "'f builtins \<Rightarrow> ('f, 's) dynamoclass \<Rightarrow> string \<Rightarrow> 'f pyval \<Rightarrow> error + 'f attribute" where
  "dataclass_field_to_dynamo_field env cls field_name value =
     (case map_of (dataclass_fields cls) field_name of
        None \<Rightarrow> Inl (NoSuchField field_name)
      | Some f \<Rightarrow>
          (case TYPE_MAPPING env (field_type f) of
             None \<Rightarrow> Inl KeyError
           | Some mapping \<Rightarrow>
               (case call_type env (field_type f) value of
                  Inl e \<Rightarrow> Inl e
                | Inr v \<Rightarrow> Inr [(key mapping, fn mapping v)])))"

text \<open>\<^verbatim>\<open>save\<close> (lines 57 to 61).\<close>

definition save ::
  "'f builtins \<Rightarrow> ('f, 's) dynamoclass \<Rightarrow> 'f dataclass_instance \<Rightarrow> 's \<Rightarrow> (error + 'f pyval) \<times> 's" where
  "save env cls self s =
     (case to_dynamo env self of
        Inl e \<Rightarrow> (Inl e, s)
      | Inr item \<Rightarrow>
          client_put_item (dynamoclass_client cls) (table_name (dynamoclass_params cls)) item s)"

text \<open>
  \<^verbatim>\<open>get\<close> (lines 97 to 119). \<open>get_key\<close> is its first part, lines 99 to 111, which builds
  the dictionary \<^verbatim>\<open>key\<close>; \<open>decode_item\<close> is the expression
  \<^verbatim>\<open>cls(**cls._to_dataclass(item))\<close> of lines 119 and 142.
\<close>

definition get_key ::
  "'f builtins \<Rightarrow> ('f, 's) dynamoclass \<Rightarrow> 'f pyval \<Rightarrow> 'f pyval \<Rightarrow> error + 'f wire_item" where
  "get_key env cls partition_key sort_key' =
     (case dataclass_field_to_dynamo_field env cls
             (partition_key_name (dynamoclass_params cls)) partition_key of
        Inl e \<Rightarrow> Inl e
      | Inr pv \<Rightarrow>
          (case sort_key_name (dynamoclass_params cls) of
             None \<Rightarrow> Inr [(partition_key_name (dynamoclass_params cls), pv)]
           | Some skn \<Rightarrow>
               (case dataclass_field_to_dynamo_field env cls skn sort_key' of
                  Inl e \<Rightarrow> Inl e
                | Inr sv \<Rightarrow>
                    Inr (AList.update skn sv [(partition_key_name (dynamoclass_params cls), pv)]))))"

definition decode_item ::
  "'f builtins \<Rightarrow> ('f, 's) dynamoclass \<Rightarrow> 'f wire_item \<Rightarrow> error + 'f dataclass_instance" where
  "decode_item env cls item =
     (case to_dataclass env cls item of Inl e \<Rightarrow> Inl e | Inr kwargs \<Rightarrow> new_instance cls kwargs)"

definition get ::
  "'f builtins \<Rightarrow> ('f, 's) dynamoclass \<Rightarrow> 'f pyval \<Rightarrow> 'f pyval \<Rightarrow> 's \<Rightarrow>
   (error + 'f dataclass_instance) \<times> 's" where
  "get env cls partition_key sort_key' s =
     (case get_key env cls partition_key sort_key' of
        Inl e \<Rightarrow> (Inl e, s)
      | Inr k \<Rightarrow>
          (case client_get_item (dynamoclass_client cls) (table_name (dynamoclass_params cls)) k s of
             (Inl e, s') \<Rightarrow> (Inl e, s')
           | (Inr None, s') \<Rightarrow> (Inl ItemNotFoundError, s')
           | (Inr (Some item), s') \<Rightarrow> (decode_item env cls item, s')))"

text \<open>\<^verbatim>\<open>query\<close> (lines 121 to 142).\<close>

definition query ::
  "'f builtins \<Rightarrow> ('f, 's) dynamoclass \<Rightarrow> 'f pyval \<Rightarrow> 'f pyval \<Rightarrow> 's \<Rightarrow>
   (error + 'f dataclass_instance list) \<times> 's" where
  "query env cls partition_key index s =
     (case map_of (dataclass_fields cls) (partition_key_name (dynamoclass_params cls)) of
        None \<Rightarrow> (Inl KeyError, s)
      | Some f \<Rightarrow>
          (case TYPE_MAPPING env (field_type f) of
             None \<Rightarrow> (Inl KeyError, s)
           | Some m \<Rightarrow>
               (case client_query (dynamoclass_client cls)
                       \<lparr>TableName = table_name (dynamoclass_params cls),
                        KeyConditionExpression =
                          partition_key_name (dynamoclass_params cls) @ '' = :val'',
                        ExpressionAttributeValues =
                          [('':val'', [(key m, VStr (py_str env partition_key))])],
                        IndexName = (if py_bool env index then Some index else None)\<rparr> s of
                  (Inl e, s') \<Rightarrow> (Inl e, s')
                | (Inr items, s') \<Rightarrow> (map_error (decode_item env cls) items, s'))))"

text \<open>
  The calls \<^verbatim>\<open>cls.get(*args, **kwargs)\<close> and \<^verbatim>\<open>cls.query(*args, **kwargs)\<close>: the
  signatures \<^verbatim>\<open>get(cls, *, partition_key, sort_key)\<close> and
  \<^verbatim>\<open>query(cls, *, partition_key, index=None)\<close> take keyword arguments only; a positional
  argument, an unknown keyword or a missing keyword without default is a \<^verbatim>\<open>TypeError\<close>
  raised before the body runs.
\<close>

record 'f call_args =
  args :: "'f pyval list"
  kwargs :: "(string \<times> 'f pyval) list"

definition call_get ::
  "'f builtins \<Rightarrow> ('f, 's) dynamoclass \<Rightarrow> 'f call_args \<Rightarrow> 's \<Rightarrow>
   (error + 'f dataclass_instance) \<times> 's" where
  "call_get env cls a s =
     (if args a \<noteq> [] then (Inl TypeError, s)
      else if list_ex (\<lambda>kv. fst kv \<noteq> ''partition_key'' \<and> fst kv \<noteq> ''sort_key'') (kwargs a)
        then (Inl TypeError, s)
      else
        (case map_of (kwargs a) ''partition_key'' of
           None \<Rightarrow> (Inl TypeError, s)
         | Some partition_key \<Rightarrow>
             (case map_of (kwargs a) ''sort_key'' of
                None \<Rightarrow> (Inl TypeError, s)
              | Some sort_key' \<Rightarrow> get env cls partition_key sort_key' s)))"

definition call_query ::
  "'f builtins \<Rightarrow> ('f, 's) dynamoclass \<Rightarrow> 'f call_args \<Rightarrow> 's \<Rightarrow>
   (error + 'f dataclass_instance list) \<times> 's" where
  "call_query env cls a s =
     (if args a \<noteq> [] then (Inl TypeError, s)
      else if list_ex (\<lambda>kv. fst kv \<noteq> ''partition_key'' \<and> fst kv \<noteq> ''index'') (kwargs a)
        then (Inl TypeError, s)
      else
        (case map_of (kwargs a) ''partition_key'' of
           None \<Rightarrow> (Inl TypeError, s)
         | Some partition_key \<Rightarrow>
             query env cls partition_key
               (case map_of (kwargs a) ''index'' of None \<Rightarrow> VNone | Some i \<Rightarrow> i) s))"

section \<open>Notions used in the statements, and concrete inputs\<close>

text \<open>A wire item without its tags: for every entry, the field name and the tagged values.\<close>

definition untagged :: "'f wire_item \<Rightarrow> (string \<times> 'f pyval list) list" where
  "untagged item = map (\<lambda>kv. (fst kv, map snd (snd kv))) item"

text \<open>
  The values for which \<^verbatim>\<open>str\<close> followed by the constructor of their own type gives the
  value back: strings, ints and bools always, a float when the text of the float parses
  back to it.
\<close>

fun reparses :: "'f builtins \<Rightarrow> 'f pyval \<Rightarrow> bool" where
  "reparses env (VStr s) = True"
| "reparses env (VInt n) = True"
| "reparses env (VBool b) = True"
| "reparses env (VFloat f) = (float_of_str env (float_str env f) = Inr f)"
| "reparses env (VBytes b) = False"
| "reparses env (VDict kvs) = False"
| "reparses env VNone = False"
| "reparses env (VList xs) = False"
| "reparses env (VData c fs) = False"

text \<open>
  Concrete inputs for evaluation. \<open>whole_env\<close> is an interpreter whose floats are the whole
  numbers, written with a trailing \<^verbatim>\<open>.0\<close>; its JSON parser knows the empty object only.
  \<open>list_client\<close> is a storage double with one table, a list of items: \<^verbatim>\<open>put_item\<close>
  appends, \<^verbatim>\<open>get_item\<close> returns the first item that has every entry of the key, and
  \<^verbatim>\<open>query\<close> returns every item.
\<close>

definition whole_env :: "int builtins" where
  "whole_env =
     \<lparr>float_str = (\<lambda>f. str_int f @ ''.0''),
      float_of_int = Inr,
      float_of_str = (\<lambda>s. if 2 \<le> length s \<and> drop (length s - 2) s = ''.0''
                           then parse_int is_space_str (take (length s - 2) s)
                           else parse_int is_space_str s),
      float_of_bytes = (\<lambda>s. parse_int is_space_bytes s),
      int_of_float = Inr,
      bool_of_float = (\<lambda>f. f \<noteq> 0),
      repr_of = (\<lambda>v. ''?''),
      dict_of_list = (\<lambda>xs. Inl TypeError),
      json_loads_str = (\<lambda>s. if s = ''{}'' then Inr (VDict []) else Inl ValueError),
      json_loads_bytes = (\<lambda>s. if s = ''{}'' then Inr (VDict []) else Inl ValueError),
      class_call = (\<lambda>c v. Inl TypeError)\<rparr>"

definition list_client :: "(int, int wire_item list) client" where
  "list_client =
     \<lparr>client_put_item = (\<lambda>t item s. (Inr (VDict []), s @ [item])),
      client_get_item =
        (\<lambda>t k s. (Inr (find (\<lambda>item. list_all (\<lambda>kv. map_of item (fst kv) = Some (snd kv)) k) s), s)),
      client_query = (\<lambda>kw s. (Inr s, s))\<rparr>"

text \<open>
  The two record types of the specification's scenarios:
  \<^verbatim>\<open>User{id: str (partition key), name: str}\<close> and
  \<^verbatim>\<open>Order{customer: str (partition key), ts: int (sort key), amount: int}\<close>.
\<close>

definition user_fields :: "(string \<times> int field) list" where
  "user_fields =
     [(''id'', \<lparr>field_type = Ty TStr, field_default = None\<rparr>),
      (''name'', \<lparr>field_type = Ty TStr, field_default = None\<rparr>)]"

definition user_cls :: "(int, int wire_item list) dynamoclass" where
  "user_cls =
     \<lparr>dataclass_fields = user_fields,
      dynamoclass_params =
        \<lparr>table_name = Some ''users'', partition_key_name = ''id'', sort_key_name = None\<rparr>,
      dynamoclass_client = list_client\<rparr>"

definition order_fields :: "(string \<times> int field) list" where
  "order_fields =
     [(''customer'', \<lparr>field_type = Ty TStr, field_default = None\<rparr>),
      (''ts'', \<lparr>field_type = Ty TInt, field_default = None\<rparr>),
      (''amount'', \<lparr>field_type = Ty TInt, field_default = None\<rparr>)]"

definition order_cls :: "(int, int wire_item list) dynamoclass" where
  "order_cls =
     \<lparr>dataclass_fields = order_fields,
      dynamoclass_params =
        \<lparr>table_name = Some ''orders'', partition_key_name = ''customer'',
         sort_key_name = Some ''ts''\<rparr>,
      dynamoclass_client = list_client\<rparr>"

definition user_item :: "int wire_item" where
  "user_item = [(''id'', [(''S'', VStr ''u1'')]), (''name'', [(''S'', VStr ''Ann'')])]"

definition user_item_retagged :: "int wire_item" where
  "user_item_retagged = [(''id'', [(''N'', VStr ''u1'')]), (''name'', [(''BOOL'', VStr ''Ann'')])]"

definition user_ann :: "int dataclass_instance" where
  "user_ann = [(''id'', VStr ''u1''), (''name'', VStr ''Ann'')]"

definition order_item :: "int wire_item" where
  "order_item =
     [(''customer'', [(''S'', VStr ''c1'')]), (''ts'', [(''N'', VStr ''100'')]),
      (''amount'', [(''N'', VStr ''250'')])]"

definition order_c1 :: "int dataclass_instance" where
  "order_c1 = [(''customer'', VStr ''c1''), (''ts'', VInt 100), (''amount'', VInt 250)]"

text \<open>A record type whose partition key and sort key are the same field.\<close>

definition same_key_cls :: "(int, int wire_item list) dynamoclass" where
  "same_key_cls =
     \<lparr>dataclass_fields = [(''id'', \<lparr>field_type = Ty TStr, field_default = None\<rparr>)],
      dynamoclass_params =
        \<lparr>table_name = Some ''things'', partition_key_name = ''id'', sort_key_name = Some ''id''\<rparr>,
      dynamoclass_client = list_client\<rparr>"

text \<open>
  \<^verbatim>\<open>Profile{id: str (partition key), tags: dict}\<close>, an item of it as the storage service
  returns a map attribute, followed by an attribute that is not a field; an instance of
  it; an instance whose second field holds an instance of a dataclass \<^verbatim>\<open>Address\<close>; and an
  instance of \<^verbatim>\<open>User\<close> whose name is \<^verbatim>\<open>None\<close>.
\<close>

definition profile_cls :: "(int, int wire_item list) dynamoclass" where
  "profile_cls =
     \<lparr>dataclass_fields =
        [(''id'', \<lparr>field_type = Ty TStr, field_default = None\<rparr>),
         (''tags'', \<lparr>field_type = Ty TDict, field_default = None\<rparr>)],
      dynamoclass_params =
        \<lparr>table_name = Some ''profiles'', partition_key_name = ''id'', sort_key_name = None\<rparr>,
      dynamoclass_client = list_client\<rparr>"

definition profile_item :: "int wire_item" where
  "profile_item = [(''tags'', [(''M'', VDict [])]), (''nickname'', [(''S'', VStr ''x'')])]"

definition profile_u1 :: "int dataclass_instance" where
  "profile_u1 = [(''id'', VStr ''u1''), (''tags'', VDict [])]"

definition customer_rome :: "int dataclass_instance" where
  "customer_rome = [(''id'', VStr ''u1''), (''address'', VData ''Address'' [(''city'', VStr ''Rome'')])]"

definition user_unnamed :: "int dataclass_instance" where
  "user_unnamed = [(''id'', VStr ''u1''), (''name'', VNone)]"

text \<open>
  Lines 73 to 76 on their own: the value that \<^verbatim>\<open>_to_dataclass\<close> stores for a field \<open>f\<close>
  whose entry in the item is \<open>value\<close>.
\<close>

definition decode_entry :: "'f builtins \<Rightarrow> 'f field \<Rightarrow> 'f attribute \<Rightarrow> error + 'f pyval" where
  "decode_entry env f value =
     (case value of
        [] \<Rightarrow> Inl IndexError
      | tagged # _ \<Rightarrow>
          (case (if field_type f = Ty TDict then json_loads env (snd tagged) else Inr (snd tagged)) of
             Inl e \<Rightarrow> Inl e
           | Inr field_value \<Rightarrow> call_type env (field_type f) field_value))"

text \<open>
  \<^verbatim>\<open>Reading{sensor: str (partition key), value: float, ok: bool, n: int}\<close> and an
  instance of it.
\<close>

definition reading_cls :: "(int, int wire_item list) dynamoclass" where
  "reading_cls =
     \<lparr>dataclass_fields =
        [(''sensor'', \<lparr>field_type = Ty TStr, field_default = None\<rparr>),
         (''value'', \<lparr>field_type = Ty TFloat, field_default = None\<rparr>),
         (''ok'', \<lparr>field_type = Ty TBool, field_default = None\<rparr>),
         (''n'', \<lparr>field_type = Ty TInt, field_default = None\<rparr>)],
      dynamoclass_params =
        \<lparr>table_name = Some ''readings'', partition_key_name = ''sensor'', sort_key_name = None\<rparr>,
      dynamoclass_client = list_client\<rparr>"

definition reading_s1 :: "int dataclass_instance" where
  "reading_s1 = [(''sensor'', VStr ''s1''), (''value'', VFloat 3), (''ok'', VBool True), (''n'', VInt (- 42))]"

text \<open>
  The entry that \<^verbatim>\<open>_to_dynamo\<close> produces for a field value whose type is in the registry.
\<close>

definition field_entry :: "'f builtins \<Rightarrow> string \<times> 'f pyval \<Rightarrow> string \<times> 'f attribute" where
  "field_entry env kv =
     (fst kv,
      case TYPE_MAPPING env (Ty (py_type (snd kv))) of
        None \<Rightarrow> []
      | Some m \<Rightarrow> [(key m, fn m (snd kv))])"

text \<open>
  A record instance \<open>r\<close> of the class \<open>cls\<close> whose fields hold values of their declared
  types, all of which reparse.
\<close>

definition well_typed :: "'f builtins \<Rightarrow> ('f, 's) dynamoclass \<Rightarrow> 'f dataclass_instance \<Rightarrow> bool" where
  "well_typed env cls r =
     (distinct (map fst r) \<and>
      list_all2
        (\<lambda>kv nf. fst kv = fst nf \<and> field_type (snd nf) = Ty (py_type (snd kv)) \<and> reparses env (snd kv))
        r (dataclass_fields cls))"

section \<open>Properties\<close>

subsection \<open>Decoding does not look at tags\<close>

lemma untagged_Nil: "untagged i2 = [] \<longleftrightarrow> i2 = []"
  by (simp add: untagged_def)

lemma untagged_Cons:
  "untagged ((n1, v1) # i1) = untagged i2 \<Longrightarrow>
     \<exists>v2 i2'. i2 = (n1, v2) # i2' \<and> map snd v1 = map snd v2 \<and> untagged i1 = untagged i2'"
  by (cases i2) (auto simp: untagged_def)

lemma to_dataclass_loop_step:
  "map snd v1 = map snd v2 \<Longrightarrow>
   (\<And>kw. to_dataclass_loop env cls i1 kw = to_dataclass_loop env cls i2 kw) \<Longrightarrow>
   to_dataclass_loop env cls ((n, v1) # i1) kw = to_dataclass_loop env cls ((n, v2) # i2) kw"
  by (cases v1; cases v2) (simp_all split: option.splits sum.splits)

lemma to_dataclass_loop_untagged:
  "untagged i1 = untagged i2 \<Longrightarrow>
   to_dataclass_loop env cls i1 kw = to_dataclass_loop env cls i2 kw"
proof (induction i1 arbitrary: i2 kw)
  case Nil
  then have "i2 = []"
    using untagged_Nil [of i2] by (simp add: untagged_def)
  then show ?case by simp
next
  case (Cons a i1)
  obtain n1 v1 where a: "a = (n1, v1)" by (cases a)
  from untagged_Cons [of n1 v1 i1 i2] Cons.prems
  obtain v2 i2' where i2: "i2 = (n1, v2) # i2'" and vals: "map snd v1 = map snd v2"
    and rest: "untagged i1 = untagged i2'"
    unfolding a by blast
  have ih: "\<And>kw. to_dataclass_loop env cls i1 kw = to_dataclass_loop env cls i2' kw"
    by (rule Cons.IH [OF rest])
  show ?case
    unfolding a i2 by (rule to_dataclass_loop_step [OF vals ih])
qed

text \<open>
  C9. \<^verbatim>\<open>_to_dataclass\<close> never reads a tag: two wire items with the same field names in the
  same order, whose entries carry the same values under whatever tags, give the same
  keyword arguments and the same record (or the same exception).
\<close>

theorem decode_ignores_tags:
  "untagged i1 = untagged i2 \<Longrightarrow>
   to_dataclass env cls i1 = to_dataclass env cls i2 \<and>
   decode_item env cls i1 = decode_item env cls i2"
  using to_dataclass_loop_untagged [of i1 i2 env cls "[]"]
  by (simp add: to_dataclass_def decode_item_def)

theorem decode_ignores_tags_witness:
  "untagged user_item = untagged user_item_retagged \<and>
   to_dataclass whole_env user_cls user_item = to_dataclass whole_env user_cls user_item_retagged \<and>
   decode_item whole_env user_cls user_item = decode_item whole_env user_cls user_item_retagged \<and>
   decode_item whole_env user_cls user_item_retagged = Inr user_ann"
proof -
  have h: "untagged user_item = untagged user_item_retagged"
    by (simp add: untagged_def user_item_def user_item_retagged_def)
  have v: "decode_item whole_env user_cls user_item_retagged = Inr user_ann"
    by (simp add: decode_item_def to_dataclass_def new_instance_def user_cls_def user_fields_def
        user_item_retagged_def user_ann_def)
  show ?thesis
    using decode_ignores_tags [OF h, of whole_env user_cls] h v by simp
qed

subsection \<open>Registration\<close>

lemma map_of_None_iff: "map_of flds k = None \<longleftrightarrow> k \<notin> fst ` set flds"
  by (simp add: map_of_eq_None_iff)

text \<open>
  C3. \<^verbatim>\<open>_process_class\<close> raises \<^verbatim>\<open>Exception\<close> (InvalidKeyFieldError) when the partition
  key name is not a declared field name, and when the sort key name is given and is not a
  declared field name; when it returns a class, the stored parameters are the table name,
  the partition key name and the sort key name it was given.
\<close>

theorem process_class_checks_keys:
  "((case partition_key_nm of None \<Rightarrow> True | Some pk \<Rightarrow> pk \<notin> fst ` set flds) \<longrightarrow>
      (\<exists>msg. process_class boto3_client flds table_nm partition_key_nm sort_key_nm endpoint_url region
               = Inl (Exception msg))) \<and>
   ((case sort_key_nm of None \<Rightarrow> False | Some sk \<Rightarrow> sk \<notin> fst ` set flds) \<longrightarrow>
      (\<exists>msg. process_class boto3_client flds table_nm partition_key_nm sort_key_nm endpoint_url region
               = Inl (Exception msg))) \<and>
   (process_class boto3_client flds table_nm partition_key_nm sort_key_nm endpoint_url region = Inr cls \<longrightarrow>
      table_name (dynamoclass_params cls) = table_nm \<and>
      Some (partition_key_name (dynamoclass_params cls)) = partition_key_nm \<and>
      sort_key_name (dynamoclass_params cls) = sort_key_nm \<and>
      dataclass_fields cls = flds)"
  by (auto simp: process_class_def map_of_None_iff split: option.splits sum.splits if_splits)

theorem process_class_checks_keys_witness:
  "(\<exists>msg. process_class (\<lambda>kw. Inr list_client) user_fields (Some ''users'') (Some ''email'') None None None
      = Inl (Exception msg)) \<and>
   (\<exists>msg. process_class (\<lambda>kw. Inr list_client) user_fields (Some ''users'') (Some ''id'') (Some ''ts'') None None
      = Inl (Exception msg)) \<and>
   process_class (\<lambda>kw. Inr list_client) order_fields (Some ''orders'') (Some ''customer'') (Some ''ts'') None None
      = Inr order_cls \<and>
   table_name (dynamoclass_params order_cls) = Some ''orders'' \<and>
   Some (partition_key_name (dynamoclass_params order_cls)) = Some ''customer'' \<and>
   sort_key_name (dynamoclass_params order_cls) = Some ''ts''"
proof -
  have a: "(case Some ''email'' of None \<Rightarrow> True | Some pk \<Rightarrow> pk \<notin> fst ` set user_fields)"
    by (simp add: user_fields_def)
  have b: "(case Some ''ts'' of None \<Rightarrow> False | Some sk \<Rightarrow> sk \<notin> fst ` set user_fields)"
    by (simp add: user_fields_def)
  have c: "process_class (\<lambda>kw. Inr list_client) order_fields (Some ''orders'') (Some ''customer'') (Some ''ts'') None None
      = Inr order_cls"
    by (simp add: process_class_def order_cls_def order_fields_def)
  show ?thesis
    using process_class_checks_keys [where partition_key_nm = "Some ''email''" and flds = user_fields
        and boto3_client = "\<lambda>kw. Inr list_client" and table_nm = "Some ''users''" and sort_key_nm = None
        and endpoint_url = None and region = None]
      process_class_checks_keys [where partition_key_nm = "Some ''id''" and flds = user_fields
        and boto3_client = "\<lambda>kw. Inr list_client" and table_nm = "Some ''users''" and sort_key_nm = "Some ''ts''"
        and endpoint_url = None and region = None]
      process_class_checks_keys [where partition_key_nm = "Some ''customer''" and flds = order_fields
        and boto3_client = "\<lambda>kw. Inr list_client" and table_nm = "Some ''orders''" and sort_key_nm = "Some ''ts''"
        and endpoint_url = None and region = None and cls = order_cls]
      a b c
    by simp
qed

subsection \<open>The key of \<^verbatim>\<open>get\<close>\<close>

text \<open>
  C10. \<^verbatim>\<open>get\<close> declares \<^verbatim>\<open>sort_key\<close> as a keyword-only parameter without default, so a
  call that does not pass it raises \<^verbatim>\<open>TypeError\<close> before the body runs, without a call
  of the client, whether or not the class declares a sort key. When the class declares no
  sort key, the value passed for \<^verbatim>\<open>sort_key\<close> is ignored: the key sent to the client and
  the result of \<^verbatim>\<open>get\<close> are the same for any two values.
\<close>

theorem get_requires_sort_key:
  "(map_of (kwargs a) ''sort_key'' = None \<longrightarrow> call_get env cls a s = (Inl TypeError, s)) \<and>
   (sort_key_name (dynamoclass_params cls) = None \<longrightarrow>
      get_key env cls partition_key sk1 = get_key env cls partition_key sk2 \<and>
      get env cls partition_key sk1 s = get env cls partition_key sk2 s)"
  by (simp add: call_get_def get_def get_key_def split: option.splits sum.splits)

theorem get_requires_sort_key_witness:
  "call_get whole_env user_cls \<lparr>args = [], kwargs = [(''partition_key'', VStr ''u1'')]\<rparr> [user_item]
     = (Inl TypeError, [user_item]) \<and>
   call_get whole_env user_cls
       \<lparr>args = [], kwargs = [(''partition_key'', VStr ''u1''), (''sort_key'', VNone)]\<rparr> [user_item]
     = (Inr user_ann, [user_item]) \<and>
   get_key whole_env user_cls (VStr ''u1'') VNone = Inr [(''id'', [(''S'', VStr ''u1'')])] \<and>
   get_key whole_env user_cls (VStr ''u1'') (VInt 7) = get_key whole_env user_cls (VStr ''u1'') VNone \<and>
   get whole_env user_cls (VStr ''u1'') (VInt 7) [user_item]
     = get whole_env user_cls (VStr ''u1'') VNone [user_item]"
proof -
  have a: "map_of (kwargs \<lparr>args = [], kwargs = [(''partition_key'', VStr ''u1'' :: int pyval)]\<rparr>) ''sort_key'' = None"
    by simp
  have b: "sort_key_name (dynamoclass_params user_cls) = None"
    by (simp add: user_cls_def)
  have c: "get_key whole_env user_cls (VStr ''u1'') VNone = Inr [(''id'', [(''S'', VStr ''u1'')])]"
    by (simp add: get_key_def dataclass_field_to_dynamo_field_def user_cls_def user_fields_def)
  have d: "call_get whole_env user_cls
       \<lparr>args = [], kwargs = [(''partition_key'', VStr ''u1''), (''sort_key'', VNone)]\<rparr> [user_item]
     = (Inr user_ann, [user_item])"
    by (simp add: call_get_def get_def c)
      (simp add: user_cls_def user_fields_def list_client_def user_item_def decode_item_def
        to_dataclass_def new_instance_def user_ann_def)
  show ?thesis
    using get_requires_sort_key [of "\<lparr>args = [], kwargs = [(''partition_key'', VStr ''u1'')]\<rparr>"
        whole_env user_cls "[user_item]" "VStr ''u1''" "VInt 7" VNone] a b c d
    by simp
qed

lemma field_to_dynamo_value:
  "map_of (dataclass_fields cls) name = Some f \<Longrightarrow>
   TYPE_MAPPING env (field_type f) = Some m \<Longrightarrow>
   call_type env (field_type f) v = Inr x \<Longrightarrow>
   dataclass_field_to_dynamo_field env cls name v = Inr [(key m, fn m x)]"
  by (simp add: dataclass_field_to_dynamo_field_def)

text \<open>
  C7, amended. When the partition key value coerces to the declared type of the partition
  key field, the key that \<^verbatim>\<open>get\<close> builds is the single entry for the partition key if
  the class declares no sort key, and that entry followed by the entry for the sort key
  if the class declares one under a different field name. Each entry is
  \<^verbatim>\<open>{wire_key: fn(field_type(value))}\<close> for the registry entry of the declared type.
\<close>

theorem get_key_entries:
  assumes "map_of (dataclass_fields cls) (partition_key_name (dynamoclass_params cls)) = Some pf"
    and "TYPE_MAPPING env (field_type pf) = Some pm"
    and "call_type env (field_type pf) partition_key = Inr pv"
  shows "(sort_key_name (dynamoclass_params cls) = None \<longrightarrow>
           get_key env cls partition_key sk
             = Inr [(partition_key_name (dynamoclass_params cls), [(key pm, fn pm pv)])]) \<and>
         (sort_key_name (dynamoclass_params cls) = Some skn \<and>
          skn \<noteq> partition_key_name (dynamoclass_params cls) \<and>
          map_of (dataclass_fields cls) skn = Some sf \<and>
          TYPE_MAPPING env (field_type sf) = Some sm \<and>
          call_type env (field_type sf) sk = Inr sv \<longrightarrow>
           get_key env cls partition_key sk
             = Inr [(partition_key_name (dynamoclass_params cls), [(key pm, fn pm pv)]),
                    (skn, [(key sm, fn sm sv)])])"
  using assms by (simp add: get_key_def field_to_dynamo_value)

theorem get_key_entries_witness:
  "get_key whole_env user_cls (VInt 7) VNone = Inr [(''id'', [(''S'', VStr ''7'')])] \<and>
   get_key whole_env order_cls (VStr ''c1'') (VStr '' 100 '')
     = Inr [(''customer'', [(''S'', VStr ''c1'')]), (''ts'', [(''N'', VStr ''100'')])]"
proof -
  have u1: "map_of (dataclass_fields user_cls) (partition_key_name (dynamoclass_params user_cls))
      = Some \<lparr>field_type = Ty TStr, field_default = None\<rparr>"
    by (simp add: user_cls_def user_fields_def)
  have u2: "TYPE_MAPPING whole_env (field_type \<lparr>field_type = Ty TStr, field_default = None :: int pyval option\<rparr>)
      = Some \<lparr>key = ''S'', fn = (\<lambda>x. VStr (py_str whole_env x))\<rparr>"
    by simp
  have u3: "call_type whole_env (field_type \<lparr>field_type = Ty TStr, field_default = None :: int pyval option\<rparr>) (VInt 7)
      = Inr (VStr ''7'')"
    by code_simp
  have u4: "sort_key_name (dynamoclass_params user_cls) = None"
    by (simp add: user_cls_def)
  have o1: "map_of (dataclass_fields order_cls) (partition_key_name (dynamoclass_params order_cls))
      = Some \<lparr>field_type = Ty TStr, field_default = None\<rparr>"
    by (simp add: order_cls_def order_fields_def)
  have o3: "call_type whole_env (field_type \<lparr>field_type = Ty TStr, field_default = None :: int pyval option\<rparr>) (VStr ''c1'')
      = Inr (VStr ''c1'')"
    by simp
  have o4: "sort_key_name (dynamoclass_params order_cls) = Some ''ts'' \<and>
      ''ts'' \<noteq> partition_key_name (dynamoclass_params order_cls) \<and>
      map_of (dataclass_fields order_cls) ''ts'' = Some \<lparr>field_type = Ty TInt, field_default = None\<rparr> \<and>
      TYPE_MAPPING whole_env (field_type \<lparr>field_type = Ty TInt, field_default = None :: int pyval option\<rparr>)
        = Some \<lparr>key = ''N'', fn = (\<lambda>x. VStr (py_str whole_env x))\<rparr> \<and>
      call_type whole_env (field_type \<lparr>field_type = Ty TInt, field_default = None :: int pyval option\<rparr>) (VStr '' 100 '')
        = Inr (VInt 100)"
  proof -
    have "call_type whole_env (Ty TInt) (VStr '' 100 '') = Inr (VInt 100 :: int pyval)"
      by code_simp
    then show ?thesis
      by (simp add: order_cls_def order_fields_def)
  qed
  have s7: "py_str whole_env (VStr ''7'') = ''7''" "py_str whole_env (VStr ''c1'') = ''c1''"
    "py_str whole_env (VInt 100) = ''100''"
    by code_simp+
  show ?thesis
    using get_key_entries [OF u1 u2 u3, where sk = VNone] get_key_entries [OF o1 u2 o3, where skn = "''ts''" and sk = "VStr '' 100 ''"
        and sf = "\<lparr>field_type = Ty TInt, field_default = None\<rparr>"
        and sm = "\<lparr>key = ''N'', fn = (\<lambda>x. VStr (py_str whole_env x))\<rparr>" and sv = "VInt 100"] u4 o4 s7
    by (simp add: user_cls_def order_cls_def)
qed

text \<open>
  The claim as stated fails for a class registered with the same field as partition key
  and sort key: line 109 overwrites the entry of line 103, and the key holds the encoded
  sort key value only, not the entry for the partition key value.
\<close>

theorem get_key_same_field_counterexample:
  "process_class (\<lambda>kw. Inr list_client) [(''id'', \<lparr>field_type = Ty TStr, field_default = None\<rparr>)]
       (Some ''things'') (Some ''id'') (Some ''id'') None None = Inr same_key_cls \<and>
   dataclass_field_to_dynamo_field whole_env same_key_cls ''id'' (VStr ''a'') = Inr [(''S'', VStr ''a'')] \<and>
   get_key whole_env same_key_cls (VStr ''a'') (VStr ''b'') = Inr [(''id'', [(''S'', VStr ''b'')])]"
  by (simp add: process_class_def same_key_cls_def get_key_def dataclass_field_to_dynamo_field_def)

subsection \<open>Lookup by key\<close>

text \<open>
  C5. Once \<^verbatim>\<open>get\<close> has built its key, it looks the key up in the class's table. When the
  response of the client has no item, \<^verbatim>\<open>get\<close> raises \<^verbatim>\<open>ItemNotFoundError\<close>; when it has
  one, \<^verbatim>\<open>get\<close> returns the instance decoded from that item (or raises what decoding
  raises).
\<close>

theorem get_not_found_or_decoded:
  "get_key env cls partition_key sk = Inr k \<Longrightarrow>
   (client_get_item (dynamoclass_client cls) (table_name (dynamoclass_params cls)) k s = (Inr None, s') \<longrightarrow>
      get env cls partition_key sk s = (Inl ItemNotFoundError, s')) \<and>
   (client_get_item (dynamoclass_client cls) (table_name (dynamoclass_params cls)) k s
      = (Inr (Some item), s') \<longrightarrow>
      get env cls partition_key sk s = (decode_item env cls item, s'))"
  by (simp add: get_def)

theorem get_not_found_or_decoded_witness:
  "get_key whole_env order_cls (VStr ''c1'') (VInt 100)
     = Inr [(''customer'', [(''S'', VStr ''c1'')]), (''ts'', [(''N'', VStr ''100'')])] \<and>
   get whole_env order_cls (VStr ''c1'') (VInt 100) [] = (Inl ItemNotFoundError, []) \<and>
   get whole_env order_cls (VStr ''c1'') (VInt 100) [order_item] = (Inr order_c1, [order_item])"
proof -
  have k: "get_key whole_env order_cls (VStr ''c1'') (VInt 100)
     = Inr [(''customer'', [(''S'', VStr ''c1'')]), (''ts'', [(''N'', VStr ''100'')])]"
    by code_simp
  have none: "client_get_item (dynamoclass_client order_cls) (table_name (dynamoclass_params order_cls))
      [(''customer'', [(''S'', VStr ''c1'')]), (''ts'', [(''N'', VStr ''100'')])] [] = (Inr None, [])"
    by code_simp
  have some: "client_get_item (dynamoclass_client order_cls) (table_name (dynamoclass_params order_cls))
      [(''customer'', [(''S'', VStr ''c1'')]), (''ts'', [(''N'', VStr ''100'')])] [order_item]
      = (Inr (Some order_item), [order_item])"
    by code_simp
  have dec: "decode_item whole_env order_cls order_item = Inr order_c1"
    by code_simp
  show ?thesis
    using get_not_found_or_decoded [OF k, of "[]" "[]" order_item]
      get_not_found_or_decoded [OF k, of "[order_item]" "[order_item]" order_item]
      k none some dec
    by simp
qed

subsection \<open>Query\<close>

lemma to_dataclass_loop_fields:
  "dataclass_fields cls' = dataclass_fields cls \<Longrightarrow>
   to_dataclass_loop env cls' item kw = to_dataclass_loop env cls item kw"
proof (induction item arbitrary: kw)
  case Nil
  then show ?case by simp
next
  case (Cons a item)
  obtain n v where a: "a = (n, v)" by (cases a)
  have ih: "\<And>kw. to_dataclass_loop env cls' item kw = to_dataclass_loop env cls item kw"
    using Cons by simp
  show ?case
    by (simp add: a ih Cons.prems cong: option.case_cong list.case_cong sum.case_cong)
qed

lemma decode_item_fields:
  "dataclass_fields cls' = dataclass_fields cls \<Longrightarrow> decode_item env cls' item = decode_item env cls item"
  using to_dataclass_loop_fields [of cls' cls env item "[]"]
  by (simp add: decode_item_def to_dataclass_def new_instance_def split: sum.splits)

lemma map_error_order:
  "map_error f xs = Inr ys \<Longrightarrow> list_all2 (\<lambda>x y. f x = Inr y) xs ys"
  by (induction xs arbitrary: ys) (auto split: sum.splits)

text \<open>
  C8. \<^verbatim>\<open>query\<close> sends one request, whose condition is
  \<^verbatim>\<open>partition_key_name = :val\<close> whatever the declared sort key \<open>skn\<close> is and whatever the
  client \<open>c\<close> is. When the client answers that request with a list of items, the result
  is the list of their decoded instances in the same order (the first item that fails to
  decode raises), and the empty list when there are no items.
\<close>

theorem query_partition_key_only:
  assumes "map_of (dataclass_fields cls) (partition_key_name (dynamoclass_params cls)) = Some f"
    and "TYPE_MAPPING env (field_type f) = Some m"
    and "client_query c
           \<lparr>TableName = table_name (dynamoclass_params cls),
            KeyConditionExpression = partition_key_name (dynamoclass_params cls) @ '' = :val'',
            ExpressionAttributeValues = [('':val'', [(key m, VStr (py_str env partition_key))])],
            IndexName = (if py_bool env index then Some index else None)\<rparr> s = (Inr items, s')"
  shows "query env (cls\<lparr>dynamoclass_params := (dynamoclass_params cls)\<lparr>sort_key_name := skn\<rparr>,
                        dynamoclass_client := c\<rparr>) partition_key index s
           = (map_error (decode_item env cls) items, s') \<and>
         (items = [] \<longrightarrow> map_error (decode_item env cls) items = Inr []) \<and>
         (map_error (decode_item env cls) items = Inr rs \<longrightarrow>
            list_all2 (\<lambda>item r. decode_item env cls item = Inr r) items rs)"
proof -
  let ?cls = "cls\<lparr>dynamoclass_params := (dynamoclass_params cls)\<lparr>sort_key_name := skn\<rparr>,
                        dynamoclass_client := c\<rparr>"
  have "decode_item env ?cls = decode_item env cls"
    by (rule ext, rule decode_item_fields) simp
  then have "query env ?cls partition_key index s = (map_error (decode_item env cls) items, s')"
    using assms by (simp add: query_def)
  then show ?thesis
    by (auto dest: map_error_order)
qed

theorem query_partition_key_only_witness:
  "query whole_env order_cls (VStr ''c1'') VNone [] = (Inr [], []) \<and>
   query whole_env order_cls (VStr ''c1'') VNone [order_item] = (Inr [order_c1], [order_item]) \<and>
   query whole_env
       (order_cls\<lparr>dynamoclass_params := (dynamoclass_params order_cls)\<lparr>sort_key_name := None\<rparr>\<rparr>)
       (VStr ''c1'') VNone [order_item] = (Inr [order_c1], [order_item])"
proof -
  have f: "map_of (dataclass_fields order_cls) (partition_key_name (dynamoclass_params order_cls))
      = Some \<lparr>field_type = Ty TStr, field_default = None\<rparr>"
    by (simp add: order_cls_def order_fields_def)
  have m: "TYPE_MAPPING whole_env (field_type \<lparr>field_type = Ty TStr, field_default = None :: int pyval option\<rparr>)
      = Some \<lparr>key = ''S'', fn = (\<lambda>x. VStr (py_str whole_env x))\<rparr>"
    by simp
  have q: "client_query list_client
           \<lparr>TableName = table_name (dynamoclass_params order_cls),
            KeyConditionExpression = partition_key_name (dynamoclass_params order_cls) @ '' = :val'',
            ExpressionAttributeValues =
              [('':val'', [(key \<lparr>key = ''S'', fn = (\<lambda>x. VStr (py_str whole_env x))\<rparr>,
                            VStr (py_str whole_env (VStr ''c1'')))])],
            IndexName = (if py_bool whole_env VNone then Some VNone else None)\<rparr> s = (Inr s, s)" for s
    by (simp add: list_client_def)
  have dec: "decode_item whole_env order_cls order_item = Inr order_c1"
    by code_simp
  have same: "order_cls\<lparr>dynamoclass_params := (dynamoclass_params order_cls)\<lparr>sort_key_name := Some ''ts''\<rparr>,
                 dynamoclass_client := list_client\<rparr> = order_cls"
    by (simp add: order_cls_def)
  have other: "order_cls\<lparr>dynamoclass_params := (dynamoclass_params order_cls)\<lparr>sort_key_name := None\<rparr>,
                 dynamoclass_client := list_client\<rparr>
      = order_cls\<lparr>dynamoclass_params := (dynamoclass_params order_cls)\<lparr>sort_key_name := None\<rparr>\<rparr>"
    by (simp add: order_cls_def)
  show ?thesis
    using query_partition_key_only [OF f m q [of "[]"], where skn = "Some ''ts''"]
      query_partition_key_only [OF f m q [of "[order_item]"], where skn = "Some ''ts''"]
      query_partition_key_only [OF f m q [of "[order_item]"], where skn = None]
      dec same other
    by simp
qed

subsection \<open>Undeclared fields\<close>

lemma to_dataclass_loop_Cons:
  "to_dataclass_loop env cls ((n, v) # rest) kw =
     (case map_of (dataclass_fields cls) n of
        None \<Rightarrow> Inl (NoSuchField n)
      | Some f \<Rightarrow>
          (case decode_entry env f v of
             Inl e \<Rightarrow> Inl e
           | Inr x \<Rightarrow> to_dataclass_loop env cls rest (AList.update n x kw)))"
  by (simp add: decode_entry_def split: option.splits list.splits sum.splits)

lemma to_dataclass_loop_append:
  "to_dataclass_loop env cls (xs @ ys) kw =
     (case to_dataclass_loop env cls xs kw of
        Inl e \<Rightarrow> Inl e
      | Inr kw' \<Rightarrow> to_dataclass_loop env cls ys kw')"
proof (induction xs arbitrary: kw)
  case Nil
  then show ?case by simp
next
  case (Cons a xs)
  obtain n v where a: "a = (n, v)" by (cases a)
  show ?case
    unfolding a append_Cons to_dataclass_loop_Cons
    by (simp add: Cons.IH split: option.splits sum.splits)
qed

lemma to_dataclass_loop_undeclared:
  "map_of (dataclass_fields cls) name = None \<Longrightarrow>
   to_dataclass_loop env cls ((name, a) # rest) kw = Inl (NoSuchField name)"
  by simp

lemma map_of_undeclared: "name \<notin> fst ` set flds \<Longrightarrow> map_of flds name = None"
  by (simp add: map_of_eq_None_iff)

text \<open>
  C4, amended. For a name that is not a declared field:
  \<^verbatim>\<open>_dataclass_field_to_dynamo_field\<close> raises the \<^verbatim>\<open>ValueError\<close> for that name
  (UnknownFieldError); decoding a wire item that has the name as a key never succeeds, and
  it raises that \<^verbatim>\<open>ValueError\<close> whenever the entries before the key decode on their own
  (otherwise the first entry that fails raises its own exception); and \<^verbatim>\<open>get\<close> on a class
  whose partition key or sort key is such a name raises it with the state of the backend
  unchanged, that is, before any call of the client. Neither \<^verbatim>\<open>_to_dataclass\<close> nor
  \<^verbatim>\<open>_dataclass_field_to_dynamo_field\<close> has access to the client.
\<close>

theorem undeclared_field_fails:
  assumes "name \<notin> fst ` set (dataclass_fields cls)"
  shows "dataclass_field_to_dynamo_field env cls name v = Inl (NoSuchField name) \<and>
         (to_dataclass env cls pre = Inr kw \<longrightarrow>
            to_dataclass env cls (pre @ (name, a) # rest) = Inl (NoSuchField name)) \<and>
         (\<exists>e. to_dataclass env cls (pre @ (name, a) # rest) = Inl e) \<and>
         (partition_key_name (dynamoclass_params cls) = name \<longrightarrow>
            get env cls partition_key sk s = (Inl (NoSuchField name), s)) \<and>
         (sort_key_name (dynamoclass_params cls) = Some name \<and>
          dataclass_field_to_dynamo_field env cls (partition_key_name (dynamoclass_params cls))
            partition_key = Inr pv \<longrightarrow>
            get env cls partition_key sk s = (Inl (NoSuchField name), s))"
proof -
  have none: "map_of (dataclass_fields cls) name = None"
    using assms by (rule map_of_undeclared)
  have enc: "dataclass_field_to_dynamo_field env cls name w = Inl (NoSuchField name)" for w
    by (simp add: dataclass_field_to_dynamo_field_def none)
  have dec: "to_dataclass env cls (pre @ (name, a) # rest) =
      (case to_dataclass env cls pre of Inl e \<Rightarrow> Inl e | Inr kw' \<Rightarrow> Inl (NoSuchField name))"
    by (simp add: to_dataclass_def to_dataclass_loop_append none split: sum.splits)
  have fails: "\<exists>e. to_dataclass env cls (pre @ (name, a) # rest) = Inl e"
    unfolding dec by (cases "to_dataclass env cls pre") simp_all
  show ?thesis
    using fails by (simp add: enc dec get_def get_key_def)
qed

theorem undeclared_field_fails_witness:
  "dataclass_field_to_dynamo_field whole_env user_cls ''email'' (VStr ''a@b'') = Inl (NoSuchField ''email'') \<and>
   to_dataclass whole_env user_cls [(''id'', [(''S'', VStr ''u1'')])] = Inr [(''id'', VStr ''u1'')] \<and>
   to_dataclass whole_env user_cls
     ([(''id'', [(''S'', VStr ''u1'')])] @ (''email'', [(''S'', VStr ''a@b'')]) # [(''name'', [(''S'', VStr ''Ann'')])])
     = Inl (NoSuchField ''email'') \<and>
   get whole_env (user_cls\<lparr>dynamoclass_params := (dynamoclass_params user_cls)\<lparr>partition_key_name := ''email''\<rparr>\<rparr>)
     (VStr ''a@b'') VNone [user_item] = (Inl (NoSuchField ''email''), [user_item])"
proof -
  have h: "''email'' \<notin> fst ` set (dataclass_fields user_cls)"
    by (simp add: user_cls_def user_fields_def)
  have h': "''email'' \<notin> fst ` set (dataclass_fields
      (user_cls\<lparr>dynamoclass_params := (dynamoclass_params user_cls)\<lparr>partition_key_name := ''email''\<rparr>\<rparr>))"
    by (simp add: user_cls_def user_fields_def)
  have pre: "to_dataclass whole_env user_cls [(''id'', [(''S'', VStr ''u1'')])] = Inr [(''id'', VStr ''u1'')]"
    by (simp add: to_dataclass_def user_cls_def user_fields_def)
  show ?thesis
    using undeclared_field_fails [OF h, where env = whole_env and v = "VStr ''a@b''"
        and pre = "[(''id'', [(''S'', VStr ''u1'')])]" and kw = "[(''id'', VStr ''u1'')]"
        and a = "[(''S'', VStr ''a@b'')]" and rest = "[(''name'', [(''S'', VStr ''Ann'')])]"]
      undeclared_field_fails [OF h', where env = whole_env and partition_key = "VStr ''a@b''"
        and sk = VNone and s = "[user_item]"]
      pre
    by simp
qed

text \<open>
  The claim as stated fails when an entry before the undeclared key does not decode: the
  loop of \<^verbatim>\<open>_to_dataclass\<close> raises at the first entry that fails. Here the map attribute
  of the field \<^verbatim>\<open>tags\<close> comes first, \<^verbatim>\<open>json.loads\<close> rejects the mapping with a
  \<^verbatim>\<open>TypeError\<close>, and the undeclared key \<^verbatim>\<open>nickname\<close> is never looked at.
\<close>

theorem undeclared_field_counterexample:
  "map_of (dataclass_fields profile_cls) ''nickname'' = None \<and>
   to_dataclass whole_env profile_cls profile_item = Inl TypeError \<and>
   to_dataclass whole_env profile_cls profile_item \<noteq> Inl (NoSuchField ''nickname'')"
  by (simp add: to_dataclass_def profile_cls_def profile_item_def)

subsection \<open>Encoding\<close>

lemma map_error_Inl:
  "map_error f xs = Inl e \<Longrightarrow> \<exists>x \<in> set xs. f x = Inl e"
  by (induction xs) (auto split: sum.splits)

lemma map_error_fails:
  "x \<in> set xs \<Longrightarrow> f x = Inl e \<Longrightarrow> \<exists>e'. map_error f xs = Inl e'"
  by (induction xs) (auto split: sum.splits)

lemma map_error_all_Inr:
  "(\<And>x. x \<in> set xs \<Longrightarrow> f x = Inr (g x)) \<Longrightarrow> map_error f xs = Inr (map g xs)"
  by (induction xs) simp_all

lemma to_dynamo_error: "to_dynamo env self = Inl e \<Longrightarrow> e = KeyError"
  by (auto simp: to_dynamo_def dest!: map_error_Inl split: option.splits)

lemma TYPE_MAPPING_type_None:
  "TYPE_MAPPING env (Ty t) = None \<longleftrightarrow> t \<notin> {TStr, TFloat, TInt, TBytes, TDict, TBool}"
  by (cases t) simp_all

text \<open>
  For values of the six kinds that \<^verbatim>\<open>type(v)\<close> can find in the registry, \<^verbatim>\<open>_to_dynamo\<close>
  returns one entry per field, in declaration order, with the wire key and the encoder of
  the registry.
\<close>

lemma TYPE_MAPPING_keys:
  "map_option key (TYPE_MAPPING env (Ty TStr)) = Some ''S''"
  "map_option key (TYPE_MAPPING env (Ty TFloat)) = Some ''N''"
  "map_option key (TYPE_MAPPING env (Ty TInt)) = Some ''N''"
  "map_option key (TYPE_MAPPING env (Ty TBytes)) = Some ''B''"
  "map_option key (TYPE_MAPPING env (Ty TDict)) = Some ''M''"
  "map_option key (TYPE_MAPPING env (Ty TBool)) = Some ''BOOL''"
  "map_option key (TYPE_MAPPING env NoneValue) = Some ''NULL''"
  by simp_all

lemma to_dynamo_supported:
  assumes "\<And>kv. kv \<in> set self \<Longrightarrow>
             py_type (asdict_inner (snd kv)) \<in> {TStr, TFloat, TInt, TBytes, TDict, TBool}"
  shows "to_dynamo env self = Inr (map (field_entry env) (asdict self))"
proof -
  have "(case TYPE_MAPPING env (Ty (py_type (snd x))) of
           None \<Rightarrow> Inl KeyError
         | Some m \<Rightarrow> Inr (fst x, [(key m, fn m (snd x))])) = Inr (field_entry env x)"
    if "x \<in> set (asdict self)" for x
  proof -
    from that obtain kv where "kv \<in> set self" and x: "x = (fst kv, asdict_inner (snd kv))"
      by (auto simp: asdict_def)
    then have "TYPE_MAPPING env (Ty (py_type (snd x))) \<noteq> None"
      using assms [of kv] TYPE_MAPPING_type_None [of env "py_type (snd x)"] by simp
    then show ?thesis
      by (auto simp: field_entry_def)
  qed
  then show ?thesis
    unfolding to_dynamo_def by (rule map_error_all_Inr)
qed

text \<open>
  C6, amended. \<^verbatim>\<open>_to_dynamo\<close> looks up the type of each field value as \<^verbatim>\<open>asdict\<close> returns
  it. When that type is not one of the supported kinds (\<^verbatim>\<open>str\<close>, \<^verbatim>\<open>float\<close>, \<^verbatim>\<open>int\<close>,
  \<^verbatim>\<open>bytes\<close>, \<^verbatim>\<open>dict\<close>, \<^verbatim>\<open>bool\<close>, \<^verbatim>\<open>None\<close>), encoding raises \<^verbatim>\<open>KeyError\<close>
  (UnsupportedTypeError) and \<^verbatim>\<open>save\<close> raises it before any call of the client. A field
  that holds an instance of another dataclass does not fail: \<^verbatim>\<open>asdict\<close> has turned it into
  a mapping, which is encoded under \<^verbatim>\<open>M\<close>.
\<close>

theorem unsupported_value_keyerror:
  "((k, v) \<in> set self \<and>
     py_type (asdict_inner v) \<notin> {TStr, TFloat, TInt, TBytes, TDict, TBool, TNoneType} \<longrightarrow>
      to_dynamo env self = Inl KeyError \<and> save env cls self s = (Inl KeyError, s)) \<and>
   to_dynamo env [(k, VData c fs)]
     = Inr [(k, [(''M'', VDict (map (\<lambda>kv. (fst kv, asdict_inner (snd kv))) fs))])]"
proof -
  have "to_dynamo env self = Inl KeyError"
    if "(k, v) \<in> set self"
      "py_type (asdict_inner v) \<notin> {TStr, TFloat, TInt, TBytes, TDict, TBool, TNoneType}"
  proof -
    have none: "TYPE_MAPPING env (Ty (py_type (asdict_inner v))) = None"
      using that(2) TYPE_MAPPING_type_None [of env "py_type (asdict_inner v)"] by simp
    have mem: "(k, asdict_inner v) \<in> set (asdict self)"
      using that(1) by (force simp: asdict_def)
    let ?f = "\<lambda>kv. case TYPE_MAPPING env (Ty (py_type (snd kv))) of
                 None \<Rightarrow> Inl KeyError
               | Some m \<Rightarrow> Inr (fst kv, [(key m, fn m (snd kv))])"
    have "?f (k, asdict_inner v) = Inl KeyError"
      by (simp add: none)
    then have "\<exists>e. map_error ?f (asdict self) = Inl e"
      using map_error_fails [of "(k, asdict_inner v)" "asdict self" ?f KeyError] mem by simp
    then obtain e where "to_dynamo env self = Inl e"
      unfolding to_dynamo_def by blast
    then show ?thesis
      using to_dynamo_error by blast
  qed
  then show ?thesis
    by (auto simp: save_def) (simp add: to_dynamo_def asdict_def)
qed

theorem unsupported_value_keyerror_witness:
  "to_dynamo whole_env [(''id'', VStr ''u1''), (''friends'', VList [VStr ''u2''])] = Inl KeyError \<and>
   save whole_env user_cls [(''id'', VStr ''u1''), (''friends'', VList [VStr ''u2''])] [] = (Inl KeyError, [])"
proof -
  have "(''friends'', VList [VStr ''u2'']) \<in> set [(''id'', VStr ''u1''), (''friends'', VList [VStr ''u2'' :: int pyval])] \<and>
      py_type (asdict_inner (VList [VStr ''u2'' :: int pyval]))
        \<notin> {TStr, TFloat, TInt, TBytes, TDict, TBool, TNoneType}"
    by simp
  then show ?thesis
    using unsupported_value_keyerror [where k = "''friends''" and v = "VList [VStr ''u2'']"
        and self = "[(''id'', VStr ''u1''), (''friends'', VList [VStr ''u2''])]" and env = whole_env
        and cls = user_cls and s = "[]"]
    by blast
qed

text \<open>
  The claim as stated fails for a field whose value is an instance of a dataclass: the
  type of the value is not in the registry, and encoding succeeds.
\<close>

theorem nested_instance_counterexample:
  "TYPE_MAPPING whole_env (Ty (py_type (VData ''Address'' [(''city'', VStr ''Rome'')]))) = None \<and>
   to_dynamo whole_env customer_rome
     = Inr [(''id'', [(''S'', VStr ''u1'')]), (''address'', [(''M'', VDict [(''city'', VStr ''Rome'')])])]"
  by (simp add: to_dynamo_def asdict_def customer_rome_def)

text \<open>
  C2. The registry maps \<^verbatim>\<open>None\<close> to \<^verbatim>\<open>NULL\<close>, but \<^verbatim>\<open>_to_dynamo\<close> looks up \<^verbatim>\<open>type(v)\<close>,
  which for the value \<^verbatim>\<open>None\<close> is \<^verbatim>\<open>NoneType\<close> and not a key of the registry: encoding a
  record with a \<^verbatim>\<open>None\<close> field raises \<^verbatim>\<open>KeyError\<close> instead of producing a \<^verbatim>\<open>NULL\<close> entry.
\<close>

theorem none_value_keyerror:
  "map_option key (TYPE_MAPPING whole_env NoneValue) = Some ''NULL'' \<and>
   TYPE_MAPPING whole_env (Ty (py_type (VNone :: int pyval))) = None \<and>
   to_dynamo whole_env user_unnamed = Inl KeyError"
  by (simp add: to_dynamo_def asdict_def user_unnamed_def)

subsection \<open>Round trip\<close>

lemma is_digit_digit_char: "d < 10 \<Longrightarrow> is_digit (digit_char d)"
  by (simp add: is_digit_def digit_char_def)

lemma digit_val_digit_char: "d < 10 \<Longrightarrow> digit_val (digit_char d) = d"
  by (simp add: digit_val_def digit_char_def)

lemma parse_digits_all:
  "list_all is_digit ds \<Longrightarrow> parse_digits acc ds = Some (foldl (\<lambda>a c. 10 * a + digit_val c) acc ds)"
  by (induction ds arbitrary: acc) auto

lemma show_nat_digits: "list_all is_digit (show_nat n)"
proof (induction n rule: show_nat.induct)
  case (1 n)
  then show ?case
    by (subst show_nat.simps) (auto simp: is_digit_digit_char)
qed

lemma show_nat_nonempty: "show_nat n \<noteq> []"
  by (subst show_nat.simps) simp

lemma show_nat_value: "foldl (\<lambda>a c. 10 * a + digit_val c) 0 (show_nat n) = n"
proof (induction n rule: show_nat.induct)
  case (1 n)
  then show ?case
    by (subst show_nat.simps) (auto simp: digit_val_digit_char)
qed

lemma parse_nat_show_nat: "parse_nat (show_nat n) = Some n"
proof -
  obtain c cs where eq: "show_nat n = c # cs"
    using show_nat_nonempty [of n] by (cases "show_nat n") auto
  have all: "list_all is_digit (c # cs)"
    using show_nat_digits [of n] eq by simp
  have "foldl (\<lambda>a c. 10 * a + digit_val c) 0 (c # cs) = n"
    using show_nat_value [of n] eq by simp
  then show ?thesis
    using all by (simp add: parse_nat_def eq parse_digits_all)
qed

lemma digit_not_space:
  "is_digit c \<Longrightarrow> \<not> is_space_str c \<and> \<not> is_space_bytes c \<and> c \<noteq> CHR ''-'' \<and> c \<noteq> CHR ''+''"
  by (auto simp: is_digit_def is_space_str_def is_space_bytes_def)

lemma strip_id:
  assumes "s \<noteq> []" "\<not> sp (hd s)" "\<not> sp (last s)"
  shows "strip sp s = s"
proof -
  have a: "dropWhile sp s = s"
    using assms by (cases s) auto
  have "hd (rev s) = last s"
    using assms by (simp add: hd_rev)
  then have b: "dropWhile sp (rev s) = rev s"
    using assms by (cases "rev s") (simp, metis dropWhile.simps(2) list.sel(1))
  show ?thesis
    by (simp add: strip_def a b)
qed

lemma last_show_nat: "is_digit (last (show_nat n))"
  using show_nat_digits [of n] show_nat_nonempty [of n]
  by (simp add: list_all_iff)

lemma hd_show_nat: "is_digit (hd (show_nat n))"
  using show_nat_digits [of n] show_nat_nonempty [of n]
  by (simp add: list_all_iff)

lemma parse_int_str_int: "parse_int is_space_str (str_int n) = Inr n"
proof (cases "n < 0")
  case True
  have "strip is_space_str (CHR ''-'' # show_nat (nat (- n))) = CHR ''-'' # show_nat (nat (- n))"
    using last_show_nat [of "nat (- n)"] show_nat_nonempty [of "nat (- n)"]
    by (intro strip_id) (auto simp: is_space_str_def dest: digit_not_space)
  then show ?thesis
    using True by (simp add: parse_int_def str_int_def parse_nat_show_nat)
next
  case False
  have "strip is_space_str (show_nat (nat n)) = show_nat (nat n)"
    using last_show_nat [of "nat n"] hd_show_nat [of "nat n"] show_nat_nonempty [of "nat n"]
    by (intro strip_id) (auto dest: digit_not_space)
  moreover obtain c cs where "show_nat (nat n) = c # cs"
    using show_nat_nonempty [of "nat n"] by (cases "show_nat (nat n)") auto
  moreover have "is_digit c"
    using hd_show_nat [of "nat n"] calculation by simp
  ultimately show ?thesis
    using False parse_nat_show_nat [of "nat n"]
    by (auto simp: parse_int_def str_int_def dest: digit_not_space)
qed

text \<open>A value that reparses is left alone by \<^verbatim>\<open>asdict\<close>, is encoded, and decodes to itself.\<close>

lemma reparses_asdict: "reparses env v \<Longrightarrow> asdict_inner v = v"
  by (cases v) simp_all

lemma reparses_entry:
  "reparses env v \<Longrightarrow>
   \<exists>m. TYPE_MAPPING env (Ty (py_type v)) = Some m \<and> py_type v \<noteq> TDict \<and>
       call_type env (Ty (py_type v)) (fn m v) = Inr v"
  by (cases v) (simp_all add: parse_int_str_int)

lemma to_dynamo_reparses:
  assumes "\<And>kv. kv \<in> set r \<Longrightarrow> reparses env (snd kv)"
  shows "to_dynamo env r = Inr (map (field_entry env) r)"
proof -
  have "(fst kv, asdict_inner (snd kv)) = kv" if "kv \<in> set r" for kv
    using assms [OF that] by (simp add: reparses_asdict)
  then have same: "asdict r = r"
    unfolding asdict_def by (simp add: map_idI)
  have "(case TYPE_MAPPING env (Ty (py_type (snd kv))) of
           None \<Rightarrow> Inl KeyError
         | Some m \<Rightarrow> Inr (fst kv, [(key m, fn m (snd kv))])) = Inr (field_entry env kv)"
    if "kv \<in> set r" for kv
    using reparses_entry [OF assms [OF that]] by (auto simp: field_entry_def)
  then show ?thesis
    unfolding to_dynamo_def same by (rule map_error_all_Inr)
qed

lemma update_fresh: "k \<notin> fst ` set kw \<Longrightarrow> AList.update k v kw = kw @ [(k, v)]"
  by (induction kw) auto

lemma to_dataclass_loop_entries:
  assumes "\<And>kv. kv \<in> set r \<Longrightarrow>
             reparses env (snd kv) \<and>
             (\<exists>f. map_of (dataclass_fields cls) (fst kv) = Some f \<and> field_type f = Ty (py_type (snd kv)))"
    and "distinct (map fst r)"
    and "fst ` set r \<inter> fst ` set kw = {}"
  shows "to_dataclass_loop env cls (map (field_entry env) r) kw = Inr (kw @ r)"
  using assms
proof (induction r arbitrary: kw)
  case Nil
  then show ?case by simp
next
  case (Cons kv r)
  obtain k v where kv: "kv = (k, v)" by (cases kv)
  from Cons.prems(1) [of kv] obtain f where rp: "reparses env v"
    and f: "map_of (dataclass_fields cls) k = Some f" and ft: "field_type f = Ty (py_type v)"
    by (auto simp: kv)
  from reparses_entry [OF rp] obtain m where m: "TYPE_MAPPING env (Ty (py_type v)) = Some m"
    and nd: "py_type v \<noteq> TDict" and again: "call_type env (Ty (py_type v)) (fn m v) = Inr v"
    by blast
  have entry: "field_entry env (k, v) = (k, [(key m, fn m v)])"
    by (simp add: field_entry_def m)
  have dec: "decode_entry env f [(key m, fn m v)] = Inr v"
    by (simp add: decode_entry_def ft nd again)
  have fresh: "k \<notin> fst ` set kw"
    using Cons.prems(3) by (auto simp: kv)
  have "to_dataclass_loop env cls (map (field_entry env) r) (kw @ [(k, v)]) = Inr ((kw @ [(k, v)]) @ r)"
  proof (rule Cons.IH)
    show "reparses env (snd x) \<and>
          (\<exists>f. map_of (dataclass_fields cls) (fst x) = Some f \<and> field_type f = Ty (py_type (snd x)))"
      if "x \<in> set r" for x
      using Cons.prems(1) [of x] that by simp
    show "distinct (map fst r)"
      using Cons.prems(2) by simp
    show "fst ` set r \<inter> fst ` set (kw @ [(k, v)]) = {}"
      using Cons.prems(2,3) by (auto simp: kv)
  qed
  then show ?case
    by (simp add: entry to_dataclass_loop_Cons f dec update_fresh [OF fresh] kv
        del: to_dataclass_loop.simps)
qed

lemma new_instance_fields:
  assumes "distinct (map fst r)"
    and "list_all2 (\<lambda>kv nf. fst kv = fst nf) r' flds"
    and "set r' \<subseteq> set r"
  shows "map_error
           (\<lambda>nf. case map_of r (fst nf) of
               Some v \<Rightarrow> Inr (fst nf, v)
             | None \<Rightarrow> (case field_default (snd nf) of None \<Rightarrow> Inl TypeError | Some d \<Rightarrow> Inr (fst nf, d)))
           flds = Inr r'"
  using assms(2,3)
proof (induction r' flds rule: list_all2_induct)
  case Nil
  then show ?case by simp
next
  case (Cons kv r' nf flds)
  have "(fst kv, snd kv) \<in> set r"
    using Cons.prems by auto
  then have "map_of r (fst kv) = Some (snd kv)"
    using assms(1) by (simp only: map_of_eq_Some_iff)
  moreover have "(fst nf, snd kv) = kv"
    using Cons.hyps(1) by (cases kv) simp
  ultimately show ?case
    using Cons by simp
qed

text \<open>
  C1, amended. For every record instance whose fields are declared \<^verbatim>\<open>str\<close>, \<^verbatim>\<open>int\<close>,
  \<^verbatim>\<open>float\<close> or \<^verbatim>\<open>bool\<close> and hold values of exactly the declared types (a float only if its
  text parses back to it), \<^verbatim>\<open>_to_dynamo\<close> succeeds, and \<^verbatim>\<open>_to_dataclass\<close> applied to its
  result followed by the class constructor gives the instance back. Map, Binary and Null
  fields are outside this law.
\<close>

theorem round_trip:
  assumes "well_typed env cls r"
  shows "to_dynamo env r = Inr (map (field_entry env) r) \<and>
         to_dataclass env cls (map (field_entry env) r) = Inr r \<and>
         decode_item env cls (map (field_entry env) r) = Inr r"
proof -
  from assms have dist: "distinct (map fst r)"
    and all: "list_all2
        (\<lambda>kv nf. fst kv = fst nf \<and> field_type (snd nf) = Ty (py_type (snd kv)) \<and> reparses env (snd kv))
        r (dataclass_fields cls)"
    by (simp_all add: well_typed_def)
  have names: "map fst r = map fst (dataclass_fields cls)"
    using all by (induction rule: list_all2_induct) simp_all
  then have dist_f: "distinct (map fst (dataclass_fields cls))"
    using dist by simp
  have each: "reparses env (snd kv) \<and>
      (\<exists>f. map_of (dataclass_fields cls) (fst kv) = Some f \<and> field_type f = Ty (py_type (snd kv)))"
    if "kv \<in> set r" for kv
  proof -
    from that obtain i where i: "i < length r" "r ! i = kv"
      by (auto simp: in_set_conv_nth)
    define nf where "nf = dataclass_fields cls ! i"
    have len: "i < length (dataclass_fields cls)"
      using i(1) all by (simp add: list_all2_lengthD)
    have nf: "nf \<in> set (dataclass_fields cls)" "fst kv = fst nf"
      "field_type (snd nf) = Ty (py_type (snd kv))" "reparses env (snd kv)"
      using list_all2_nthD [OF all i(1)] i(2) len by (simp_all add: nf_def)
    have "map_of (dataclass_fields cls) (fst nf) = Some (snd nf)"
      using dist_f nf(1) by (cases nf) (simp add: map_of_eq_Some_iff)
    then show ?thesis
      using nf by simp
  qed
  have enc: "to_dynamo env r = Inr (map (field_entry env) r)"
    using each by (intro to_dynamo_reparses) simp
  have dec: "to_dataclass env cls (map (field_entry env) r) = Inr r"
    unfolding to_dataclass_def
    using to_dataclass_loop_entries [of r env cls "[]"] each dist by simp
  have known: "\<not> list_ex (\<lambda>kv. map_of (dataclass_fields cls) (fst kv) = None) r"
    using each by (auto simp: list_ex_iff)
  have "list_all2 (\<lambda>kv nf. fst kv = fst nf) r (dataclass_fields cls)"
    using all by (rule list_all2_mono) simp
  from new_instance_fields [OF dist this]
  have "new_instance cls r = Inr r"
    using known by (simp add: new_instance_def)
  then show ?thesis
    using enc dec by (simp add: decode_item_def)
qed

theorem round_trip_witness:
  "well_typed whole_env reading_cls reading_s1 \<and>
   to_dynamo whole_env reading_s1
     = Inr [(''sensor'', [(''S'', VStr ''s1'')]), (''value'', [(''N'', VStr ''3.0'')]),
            (''ok'', [(''BOOL'', VBool True)]), (''n'', [(''N'', VStr ''-42'')])] \<and>
   decode_item whole_env reading_cls
       [(''sensor'', [(''S'', VStr ''s1'')]), (''value'', [(''N'', VStr ''3.0'')]),
        (''ok'', [(''BOOL'', VBool True)]), (''n'', [(''N'', VStr ''-42'')])]
     = Inr reading_s1"
proof -
  have wt: "well_typed whole_env reading_cls reading_s1"
    by code_simp
  have item: "map (field_entry whole_env) reading_s1
      = [(''sensor'', [(''S'', VStr ''s1'')]), (''value'', [(''N'', VStr ''3.0'')]),
         (''ok'', [(''BOOL'', VBool True)]), (''n'', [(''N'', VStr ''-42'')])]"
    by code_simp
  show ?thesis
    using round_trip [OF wt] wt by (simp only: item simp_thms)
qed

text \<open>
  The claim as stated fails for every Map field, also for a mapping that JSON can express:
  \<^verbatim>\<open>_to_dynamo\<close> passes the empty mapping through under \<^verbatim>\<open>M\<close>, and \<^verbatim>\<open>_to_dataclass\<close> gives
  that mapping to \<^verbatim>\<open>json.loads\<close>, which accepts text only and raises \<^verbatim>\<open>TypeError\<close>.
\<close>

theorem map_round_trip_counterexample:
  "to_dynamo whole_env profile_u1 = Inr [(''id'', [(''S'', VStr ''u1'')]), (''tags'', [(''M'', VDict [])])] \<and>
   json_loads whole_env (VStr ''{}'') = Inr (VDict []) \<and>
   decode_item whole_env profile_cls [(''id'', [(''S'', VStr ''u1'')]), (''tags'', [(''M'', VDict [])])]
     = Inl TypeError"
  by (simp add: to_dynamo_def asdict_def profile_u1_def decode_item_def to_dataclass_def
      profile_cls_def whole_env_def)

end
